theory Spec2Isabelle
  imports Main "HOL-Library.Sublist"
begin

section \<open>The OpenGrok test-instance manager\<close>

text \<open>
  The program verified here is the shell script \<^verbatim>\<open>manage-opengrok-test.sh\<close>
  (second document of \<^verbatim>\<open>src/extension.js\<close>, lines 77 to 761). It runs under
  \<^verbatim>\<open>set -euo pipefail\<close>: a command that fails outside a condition ends the script with
  that command's status, and \<^verbatim>\<open>die\<close> ends it with status 1.

  The embedding passes the state explicitly. Every shell variable is a \<open>string\<close>, as in
  the script. A shell function is a HOL function from the world to either an error (the
  script ended there) or the function's return status together with the new world.
\<close>

subsection \<open>Data model\<close>

text \<open>
  The document \<^verbatim>\<open>$STATE_DIR/<name>/config.json\<close> written by \<^verbatim>\<open>save_instance_state\<close>.
  A field holds the text the script wrote, which is also what \<^verbatim>\<open>jq -r\<close> reads back:
  names and paths are taken to need no JSON escaping and ports to be plain decimal
  numerals.
\<close>

record instance_record =
  name :: string
  vm_name :: string
  codebase_type :: string
  codebase_path :: string
  port :: string
  memory :: string
  disk :: string
  cpus :: string
  ubuntu_version :: string
  created :: string
  git_depth :: string
  git_branch :: string

text \<open>
  The state that \<^verbatim>\<open>multipass info\<close> reports for a VM that exists. The script greps the
  report for the words \<^verbatim>\<open>Running\<close> and \<^verbatim>\<open>Stopped\<close>, which are taken to occur only as
  the state; every other state is \<open>OtherState\<close>.
\<close>

datatype vm_state = Running | Stopped | OtherState

text \<open>An entry of the host file system: a directory, or a file as its list of lines.\<close>

datatype node = Dir | File "string list"

text \<open>
  The external commands the script runs and the effects it has, in the order they happen.
  Progress messages of \<^verbatim>\<open>info\<close> are recorded where they report a result.
\<close>

datatype action =
    PortCheck string string
  | CreateDemo string
  | Download
  | Launch string string string string string
  | ExecVM string "string list"
  | Transfer string string string
  | TransferR string string string
  | Mount string string string
  | StartVM string
  | StopVM string
  | DeletePurge string
  | Shell string
  | Save instance_record
  | RemoveState string
  | Curl string
  | Sleep nat
  | RmRf string
  | OpenUrl string string
  | TableRow "string list"
  | Echo string
  | Warn string

text \<open>
  How the script can end early. All but \<open>CommandFailed\<close> are calls of \<^verbatim>\<open>die\<close>;
  \<open>CommandFailed\<close> is \<^verbatim>\<open>set -e\<close> acting on a failed external command, and
  \<open>UnboundVariable\<close> is \<^verbatim>\<open>set -u\<close> acting on an option given without its value.
\<close>

datatype error =
    MultipassMissing
  | Usage string
  | UnknownOption string
  | UnknownCommand string
  | UnboundVariable
  | NotFoundError string
  | StateFileMissing string
  | InvalidCodebase string
  | PortConflict string string
  | StopFailed
  | NotRunning string
  | CommandFailed action nat

fun exit_status :: "error \<Rightarrow> nat" where
  "exit_status (CommandFailed a s) = s"
| "exit_status _ = 1"

text \<open>The answer to one request of the readiness probe.\<close>

datatype http_response = NoConnection | Status nat

text \<open>
  The world the script changes: the instance records under \<^verbatim>\<open>$STATE_DIR\<close> (an instance
  directory and its \<^verbatim>\<open>config.json\<close> are written together, so one list entry stands for
  both, in the order the glob \<^verbatim>\<open>"$STATE_DIR"/*/config.json\<close> lists them), the VMs of
  the backend, the host files, and the log of actions.
\<close>

record world =
  instances :: "instance_record list"
  vms :: "string \<rightharpoonup> vm_state"
  files :: "string \<rightharpoonup> node"
  trace :: "action list"

text \<open>
  What the script reads from its surroundings and cannot decide itself: the exit status
  of each external command, the answer of the service to the \<open>i\<close>-th probe of a URL,
  the directory \<^verbatim>\<open>mktemp -d\<close> makes, the absolute path \<^verbatim>\<open>cd dir && pwd\<close> prints,
  the clock, the state of the dependency cache, the address of a VM, the script's own
  name and directory, and the program that opens a URL (\<^verbatim>\<open>open\<close> or \<^verbatim>\<open>xdg-open\<close>).
\<close>

record env =
  script :: string
  script_dir :: string
  multipass_installed :: bool
  backend :: "action \<Rightarrow> nat"
  http :: "string \<Rightarrow> nat \<Rightarrow> http_response"
  mktemp_d :: string
  pwd_of :: "string \<Rightarrow> string"
  date_utc :: string
  cache_valid :: bool
  cache_files :: "string list"
  vm_ip :: "string \<Rightarrow> string"
  browser :: "string option"

subsection \<open>Helpers\<close>

definition log :: "action list \<Rightarrow> world \<Rightarrow> world" where
  "log as w = w\<lparr>trace := trace w @ as\<rparr>"

definition get_vm_name :: "string \<Rightarrow> string" where
  "get_vm_name n = ''opengrok-test-'' @ n"

text \<open>\<^verbatim>\<open>multipass info "$vm_name" 2>/dev/null | grep -q "Running"\<close>\<close>

definition info_running :: "world \<Rightarrow> string \<Rightarrow> bool" where
  "info_running w vm = (vms w vm = Some Running)"

text \<open>\<^verbatim>\<open>multipass info "$vm_name" 2>/dev/null | grep -q "Stopped"\<close>\<close>

definition info_stopped :: "world \<Rightarrow> string \<Rightarrow> bool" where
  "info_stopped w vm = (vms w vm = Some Stopped)"

text \<open>\<^verbatim>\<open>multipass info "$vm_name" &>/dev/null\<close>\<close>

definition info_ok :: "world \<Rightarrow> string \<Rightarrow> bool" where
  "info_ok w vm = (vms w vm \<noteq> None)"

text \<open>\<^verbatim>\<open>[ -d "$STATE_DIR/$name" ]\<close>\<close>

definition instance_dir_exists :: "world \<Rightarrow> string \<Rightarrow> bool" where
  "instance_dir_exists w n = (n \<in> name ` set (instances w))"

text \<open>What a backend command that succeeded changes.\<close>

fun effect :: "action \<Rightarrow> world \<Rightarrow> world" where
  "effect (Launch vm m d c u) w = w\<lparr>vms := (vms w)(vm \<mapsto> Running)\<rparr>"
| "effect (StartVM vm) w = w\<lparr>vms := (vms w)(vm \<mapsto> Running)\<rparr>"
| "effect (StopVM vm) w = w\<lparr>vms := (vms w)(vm \<mapsto> Stopped)\<rparr>"
| "effect (DeletePurge vm) w = w\<lparr>vms := (vms w)(vm := None)\<rparr>"
| "effect _ w = w"

text \<open>One external command under \<^verbatim>\<open>set -e\<close>: a non-zero status ends the script.\<close>

definition run :: "env \<Rightarrow> action \<Rightarrow> world \<Rightarrow> error + world" where
  "run e a w =
     (if backend e a = 0 then Inr (effect a (log [a] w))
      else Inl (CommandFailed a (backend e a)))"

fun run_all :: "env \<Rightarrow> action list \<Rightarrow> world \<Rightarrow> error + world" where
  "run_all e [] w = Inr w"
| "run_all e (a # as) w =
     (case run e a w of Inl err \<Rightarrow> Inl err | Inr w' \<Rightarrow> run_all e as w')"

definition and_then :: "error + 'a \<Rightarrow> ('a \<Rightarrow> error + 'b) \<Rightarrow> error + 'b" where
  "and_then m f = (case m of Inl err \<Rightarrow> Inl err | Inr x \<Rightarrow> f x)"

subsection \<open>Port allocator: \<^verbatim>\<open>check_port_available\<close>\<close>

text \<open>
  The loop over the stored records (lines 152 to 165); a missing state directory holds
  none. The VM asked about is the one named after the record's \<^verbatim>\<open>name\<close> field; the
  first running owner ends the script.
\<close>

fun port_scan :: "world \<Rightarrow> string \<Rightarrow> string \<Rightarrow> instance_record list \<Rightarrow> error + unit" where
  "port_scan w p n [] = Inr ()"
| "port_scan w p n (r # rs) =
     (if port r = p \<and> name r \<noteq> n then
        (if info_running w (get_vm_name (name r)) then Inl (PortConflict p (name r))
         else port_scan w p n rs)
      else port_scan w p n rs)"

definition check_port_available :: "string \<Rightarrow> string \<Rightarrow> world \<Rightarrow> error + world" where
  "check_port_available p n w =
     (case port_scan w p n (instances w) of
        Inl err \<Rightarrow> Inl err
      | Inr u \<Rightarrow> Inr (log [PortCheck p n] w))"

subsection \<open>Demo codebase: \<^verbatim>\<open>create_demo_codebase\<close>\<close>

text \<open>The nine here-documents of lines 220 to 359, line by line.\<close>

definition demo_utils_h :: "string list" where
  \<open>demo_utils_h =
    [''#ifndef UTILS_H'',
     ''#define UTILS_H'',
     [],
     ''int string_length(const char* str);'',
     ''void print_message(const char* msg);'',
     [],
     ''#endif'']\<close>

definition demo_utils_c :: "string list" where
  \<open>demo_utils_c =
    [''#include <stdio.h>'',
     ''#include <string.h>'',
     ''#include "../include/utils.h"'',
     [],
     ''int string_length(const char* str) {'',
     ''    return strlen(str);'',
     ''}'',
     [],
     ''void print_message(const char* msg) {'',
     ''    printf("%s'' @ [CHR 0x5C] @ ''n", msg);'',
     ''}'']\<close>

definition demo_main_c :: "string list" where
  \<open>demo_main_c =
    [''#include <stdio.h>'',
     ''#include "../include/utils.h"'',
     [],
     ''int main() {'',
     ''    const char* message = "Hello, OpenGrok!";'',
     ''    print_message(message);'',
     ''    printf("Message length: %d'' @ [CHR 0x5C] @ ''n", string_length(message));'',
     ''    return 0;'',
     ''}'']\<close>

definition demo_server_py :: "string list" where
  \<open>demo_server_py =
    [''from client import Client'',
     [],
     ''class Server:'',
     ''    def __init__(self, port):'',
     ''        self.port = port'',
     ''        self.clients = []'',
     [],
     ''    def add_client(self, client):'',
     ''        self.clients.append(client)'',
     [],
     ''    def broadcast(self, message):'',
     ''        for client in self.clients:'',
     ''            client.send(message)'',
     [],
     ''    def start(self):'',
     ''        print(f"Server started on port {self.port}")'']\<close>

definition demo_client_py :: "string list" where
  \<open>demo_client_py =
    [''class Client:'',
     ''    def __init__(self, name):'',
     ''        self.name = name'',
     [],
     ''    def send(self, message):'',
     ''        print(f"{self.name} received: {message}")'',
     [],
     ''    def connect(self, server):'',
     ''        server.add_client(self)'']\<close>

definition demo_helpers_js :: "string list" where
  \<open>demo_helpers_js =
    [''export function formatMessage(msg) {'',
     ''    return `[INFO] ${msg}`;'',
     ''}'',
     [],
     ''export function getCurrentTimestamp() {'',
     ''    return new Date().toISOString();'',
     ''}'']\<close>

definition demo_app_js :: "string list" where
  \<open>demo_app_js =
    [''import { formatMessage, getCurrentTimestamp } from './helpers.js';'',
     [],
     ''class Application {'',
     ''    constructor(name) {'',
     ''        this.name = name;'',
     ''        this.startTime = getCurrentTimestamp();'',
     ''    }'',
     [],
     ''    log(message) {'',
     ''        console.log(formatMessage(message));'',
     ''    }'',
     [],
     ''    run() {'',
     ''        this.log(`Application ${this.name} started at ${this.startTime}`);'',
     ''    }'',
     ''}'',
     [],
     ''const app = new Application('DemoApp');'',
     ''app.run();'']\<close>

definition demo_test_utils_c :: "string list" where
  \<open>demo_test_utils_c =
    [''#include <assert.h>'',
     ''#include <string.h>'',
     ''#include "../include/utils.h"'',
     [],
     ''void test_string_length() {'',
     ''    assert(string_length("hello") == 5);'',
     ''    assert(string_length("") == 0);'',
     ''}'',
     [],
     ''int main() {'',
     ''    test_string_length();'',
     ''    return 0;'',
     ''}'']\<close>

definition demo_test_server_py :: "string list" where
  \<open>demo_test_server_py =
    [''import sys'',
     ''sys.path.insert(0, '../src')'',
     [],
     ''from server import Server'',
     ''from client import Client'',
     [],
     ''def test_server():'',
     ''    server = Server(8080)'',
     ''    client = Client("TestClient")'',
     ''    client.connect(server)'',
     ''    assert len(server.clients) == 1'',
     ''    print("Tests passed")'',
     [],
     ''if __name__ == "__main__":'',
     ''    test_server()'']\<close>

definition mkdir_p :: "string \<Rightarrow> (string \<rightharpoonup> node) \<Rightarrow> (string \<rightharpoonup> node)" where
  "mkdir_p p fs = fs(p \<mapsto> Dir)"

definition write_file :: "string \<Rightarrow> string list \<Rightarrow> (string \<rightharpoonup> node) \<Rightarrow> (string \<rightharpoonup> node)" where
  "write_file p ls fs = fs(p \<mapsto> File ls)"

text \<open>
  \<open>demo_dir\<close> is the directory \<^verbatim>\<open>mktemp -d\<close> made; the first step records that it now
  exists.
\<close>

definition create_demo_codebase :: "string \<Rightarrow> (string \<rightharpoonup> node) \<Rightarrow> (string \<rightharpoonup> node)" where
  "create_demo_codebase demo_dir fs =
     (let fs = mkdir_p demo_dir fs;
          fs = mkdir_p (demo_dir @ ''/src'') fs;
          fs = mkdir_p (demo_dir @ ''/include'') fs;
          fs = mkdir_p (demo_dir @ ''/tests'') fs;
          fs = write_file (demo_dir @ ''/include/utils.h'') demo_utils_h fs;
          fs = write_file (demo_dir @ ''/src/utils.c'') demo_utils_c fs;
          fs = write_file (demo_dir @ ''/src/main.c'') demo_main_c fs;
          fs = write_file (demo_dir @ ''/src/server.py'') demo_server_py fs;
          fs = write_file (demo_dir @ ''/src/client.py'') demo_client_py fs;
          fs = write_file (demo_dir @ ''/src/helpers.js'') demo_helpers_js fs;
          fs = write_file (demo_dir @ ''/src/app.js'') demo_app_js fs;
          fs = write_file (demo_dir @ ''/tests/test_utils.c'') demo_test_utils_c fs;
          fs = write_file (demo_dir @ ''/tests/test_server.py'') demo_test_server_py fs
      in fs)"

text \<open>The tree below a directory, by path relative to it (\<open>[]\<close> is the directory itself).\<close>

definition tree_under :: "string \<Rightarrow> (string \<rightharpoonup> node) \<Rightarrow> (string \<rightharpoonup> node)" where
  "tree_under d fs = (\<lambda>rel. fs (d @ rel))"

text \<open>\<^verbatim>\<open>rm -rf "$source_path"\<close>\<close>

definition rm_rf :: "string \<Rightarrow> (string \<rightharpoonup> node) \<Rightarrow> (string \<rightharpoonup> node)" where
  "rm_rf d fs = (\<lambda>p. if p = d \<or> prefix (d @ ''/'') p then None else fs p)"

subsection \<open>Options of \<^verbatim>\<open>start\<close> (lines 414 to 436)\<close>

record start_options =
  opt_memory :: string
  opt_disk :: string
  opt_cpus :: string
  opt_port :: string
  opt_ubuntu :: string
  opt_no_cache :: string
  opt_git_depth :: string
  opt_git_branch :: string

definition default_options :: start_options where
  "default_options =
     \<lparr>opt_memory = ''4G'', opt_disk = ''20G'', opt_cpus = ''2'', opt_port = ''8080'',
      opt_ubuntu = ''22.04'', opt_no_cache = ''no'', opt_git_depth = [], opt_git_branch = []\<rparr>"

text \<open>
  The \<^verbatim>\<open>while [ $# -gt 0 ]\<close> loop. An option that takes a value and comes last reads
  the unset \<^verbatim>\<open>$2\<close>, which \<^verbatim>\<open>set -u\<close> turns into the end of the script.
\<close>

fun parse_options :: "string list \<Rightarrow> start_options \<Rightarrow> error + start_options" where
  "parse_options [] opts = Inr opts"
| "parse_options (a # rest) opts =
     (if a = ''--memory'' then
        (case rest of [] \<Rightarrow> Inl UnboundVariable
         | v # rest' \<Rightarrow> parse_options rest' (opts\<lparr>opt_memory := v\<rparr>))
      else if a = ''--disk'' then
        (case rest of [] \<Rightarrow> Inl UnboundVariable
         | v # rest' \<Rightarrow> parse_options rest' (opts\<lparr>opt_disk := v\<rparr>))
      else if a = ''--cpus'' then
        (case rest of [] \<Rightarrow> Inl UnboundVariable
         | v # rest' \<Rightarrow> parse_options rest' (opts\<lparr>opt_cpus := v\<rparr>))
      else if a = ''--port'' then
        (case rest of [] \<Rightarrow> Inl UnboundVariable
         | v # rest' \<Rightarrow> parse_options rest' (opts\<lparr>opt_port := v\<rparr>))
      else if a = ''--ubuntu'' then
        (case rest of [] \<Rightarrow> Inl UnboundVariable
         | v # rest' \<Rightarrow> parse_options rest' (opts\<lparr>opt_ubuntu := v\<rparr>))
      else if a = ''--no-cache'' then parse_options rest (opts\<lparr>opt_no_cache := ''yes''\<rparr>)
      else if a = ''--depth'' then
        (case rest of [] \<Rightarrow> Inl UnboundVariable
         | v # rest' \<Rightarrow> parse_options rest' (opts\<lparr>opt_git_depth := v\<rparr>))
      else if a = ''--branch'' then
        (case rest of [] \<Rightarrow> Inl UnboundVariable
         | v # rest' \<Rightarrow> parse_options rest' (opts\<lparr>opt_git_branch := v\<rparr>))
      else Inl (UnknownOption a))"

text \<open>
  Lines 407 to 412: the word after the name is the codebase unless it is empty or starts
  with \<^verbatim>\<open>--\<close>; then it stays in the argument list and the codebase is empty.
\<close>

definition codebase_arg :: "string list \<Rightarrow> string \<times> string list" where
  "codebase_arg rest =
     (case rest of
        [] \<Rightarrow> ([], [])
      | c # r \<Rightarrow> if c \<noteq> [] \<and> take 2 c \<noteq> ''--'' then (c, r) else ([], rest))"

subsection \<open>Codebase resolver (lines 461 to 483)\<close>

text \<open>
  \<^verbatim>\<open>basename\<close> as POSIX defines it: trailing slashes go, then everything up to the last
  slash; a string of slashes only gives \<^verbatim>\<open>/\<close>. With a suffix operand, the suffix is
  removed when the name ends with it and is not the suffix itself.
\<close>

definition basename :: "string \<Rightarrow> string" where
  "basename s =
     (let t = rev (dropWhile (\<lambda>c. c = CHR ''/'') (rev s))
      in if t = [] then (if s = [] then [] else ''/'')
         else rev (takeWhile (\<lambda>c. c \<noteq> CHR ''/'') (rev t)))"

definition basename_suffix :: "string \<Rightarrow> string \<Rightarrow> string" where
  "basename_suffix s suf =
     (let b = basename s
      in if b \<noteq> suf \<and> suffix suf b then take (length b - length suf) b else b)"

text \<open>The test \<^verbatim>\<open>[[ "$codebase" =~ ^(https?://|git@|ssh://) ]]\<close>.\<close>

definition url_pattern :: "string \<Rightarrow> bool" where
  "url_pattern c =
     (prefix ''http://'' c \<or> prefix ''https://'' c \<or> prefix ''git@'' c \<or> prefix ''ssh://'' c)"

text \<open>\<^verbatim>\<open>[ -d "$codebase" ]\<close>\<close>

definition is_dir :: "world \<Rightarrow> string \<Rightarrow> bool" where
  "is_dir w p = (files w p = Some Dir)"

text \<open>
  The result is the codebase type, the source path and the project name. The empty
  argument generates the demo tree in the directory \<^verbatim>\<open>mktemp -d\<close> made.
\<close>

definition determine_codebase ::
  "env \<Rightarrow> string \<Rightarrow> world \<Rightarrow> error + (string \<times> string \<times> string \<times> world)" where
  "determine_codebase e codebase w =
     (if codebase = [] then
        Inr (''demo'', mktemp_d e, ''demo'',
             log [CreateDemo (mktemp_d e)]
               (w\<lparr>files := create_demo_codebase (mktemp_d e) (files w)\<rparr>))
      else if is_dir w codebase then
        Inr (''local'', pwd_of e codebase, basename (pwd_of e codebase), w)
      else if url_pattern codebase then
        Inr (''git'', codebase, basename_suffix codebase ''.git'', w)
      else Inl (InvalidCodebase codebase))"

subsection \<open>Dependency cache: \<^verbatim>\<open>ensure_cache\<close>\<close>

text \<open>\<open>cache_valid\<close>: the cache directory and its \<^verbatim>\<open>MANIFEST.txt\<close> both exist.\<close>

definition ensure_cache :: "env \<Rightarrow> string \<Rightarrow> world \<Rightarrow> error + world" where
  "ensure_cache e force_download w =
     (if force_download = ''yes'' \<or> \<not> cache_valid e then run e Download w else Inr w)"

subsection \<open>Provisioning steps of \<^verbatim>\<open>command_start\<close>\<close>

text \<open>Lines 488 to 505: create the VM, send the scripts and every cached file.\<close>

definition vm_setup_steps :: "env \<Rightarrow> string \<Rightarrow> start_options \<Rightarrow> action list" where
  "vm_setup_steps e vm opts =
     [Launch vm (opt_memory opts) (opt_disk opts) (opt_cpus opts) (opt_ubuntu opts),
      ExecVM vm [''mkdir'', ''-p'', ''/home/ubuntu/scripts''],
      Transfer (script_dir e @ ''/download-dependencies.sh'') vm ''/home/ubuntu/scripts/'',
      Transfer (script_dir e @ ''/install-opengrok.sh'') vm ''/home/ubuntu/scripts/'',
      ExecVM vm [''mkdir'', ''-p'', ''/tmp/opengrok-deps'']]
     @ map (\<lambda>f. Transfer f vm ''/tmp/opengrok-deps/'') (cache_files e)"

definition git_clone_cmd :: "string \<Rightarrow> string \<Rightarrow> string \<Rightarrow> string" where
  "git_clone_cmd depth branch source_path =
     ''git clone'' @ (if depth \<noteq> [] then '' --depth '' @ depth else [])
       @ (if branch \<noteq> [] then '' --branch '' @ branch else [])
       @ '' '' @ source_path @ '' /tmp/source-code''"

definition copy_from_mount :: string where
  "copy_from_mount =
     ''cp -r /mnt/source/* /tmp/source-code/ 2>/dev/null || cp -r /mnt/source/. /tmp/source-code/''"

text \<open>
  Lines 507 to 523. A recursive transfer that fails is followed by the mount and the
  copy inside the guest; a failure of those ends the script.
\<close>

definition handle_codebase ::
  "env \<Rightarrow> string \<Rightarrow> string \<Rightarrow> string \<Rightarrow> start_options \<Rightarrow> world \<Rightarrow> error + world" where
  "handle_codebase e vm ct source_path opts w =
     (if ct = ''local'' \<or> ct = ''demo'' then
        and_then (run e (ExecVM vm [''mkdir'', ''-p'', ''/tmp/source-code'']) w) (\<lambda>w1.
          if backend e (TransferR (source_path @ ''/*'') vm ''/tmp/source-code/'') = 0
          then Inr (log [TransferR (source_path @ ''/*'') vm ''/tmp/source-code/''] w1)
          else run_all e
                 [Mount source_path vm ''/mnt/source'', ExecVM vm [''sh'', ''-c'', copy_from_mount]]
                 (log [TransferR (source_path @ ''/*'') vm ''/tmp/source-code/''] w1))
      else if ct = ''git'' then
        run e (ExecVM vm [''bash'', ''-c'',
                 git_clone_cmd (opt_git_depth opts) (opt_git_branch opts) source_path]) w
      else Inr w)"

definition install_cmd :: "string \<Rightarrow> string \<Rightarrow> string list" where
  "install_cmd p project_name =
     [''sudo'', ''bash'', ''/home/ubuntu/scripts/install-opengrok.sh'', ''-y'',
      ''--indexer-memory'', ''2048'', ''--port'', p, ''--project-name'', project_name,
      ''/tmp/opengrok-deps'', ''/tmp/source-code'']"

subsection \<open>State store: \<^verbatim>\<open>save_instance_state\<close>\<close>

definition new_record :: "env \<Rightarrow> string \<Rightarrow> string \<Rightarrow> string \<Rightarrow> start_options \<Rightarrow> instance_record" where
  "new_record e n ct source_path opts =
     \<lparr>name = n, vm_name = get_vm_name n, codebase_type = ct, codebase_path = source_path,
      port = opt_port opts, memory = opt_memory opts, disk = opt_disk opts,
      cpus = opt_cpus opts, ubuntu_version = opt_ubuntu opts, created = date_utc e,
      git_depth = opt_git_depth opts, git_branch = opt_git_branch opts\<rparr>"

text \<open>The file is overwritten: a record of the same name is replaced.\<close>

definition save_instance_state ::
  "env \<Rightarrow> string \<Rightarrow> string \<Rightarrow> string \<Rightarrow> start_options \<Rightarrow> world \<Rightarrow> world" where
  "save_instance_state e n ct source_path opts w =
     log [Save (new_record e n ct source_path opts)]
       (w\<lparr>instances := filter (\<lambda>r. name r \<noteq> n) (instances w)
                           @ [new_record e n ct source_path opts]\<rparr>)"

subsection \<open>Readiness prober: \<^verbatim>\<open>wait_for_opengrok\<close>\<close>

text \<open>
  The exit status of \<^verbatim>\<open>curl -sf\<close>: 0 for an answer below 400, 22 for an HTTP error,
  7 when no connection was made.
\<close>

fun curl_sf :: "http_response \<Rightarrow> nat" where
  "curl_sf NoConnection = 7"
| "curl_sf (Status c) = (if 400 \<le> c then 22 else 0)"

definition max_attempts :: nat where
  "max_attempts = 60"

function wait_loop :: "env \<Rightarrow> string \<Rightarrow> nat \<Rightarrow> world \<Rightarrow> nat \<times> world" where
  "wait_loop e url attempt w =
     (if attempt < max_attempts then
        (if curl_sf (http e url attempt) = 0 then (0, log [Curl url] w)
         else wait_loop e url (attempt + 1) (log [Curl url, Sleep 2] w))
      else (1, w))"
  by pat_completeness auto
termination
  by (relation "measure (\<lambda>(e, url, attempt, w). max_attempts - attempt)") auto

definition wait_for_opengrok :: "env \<Rightarrow> string \<Rightarrow> world \<Rightarrow> nat \<times> world" where
  "wait_for_opengrok e url w = wait_loop e url 0 w"

subsection \<open>\<^verbatim>\<open>command_start\<close>\<close>

definition service_url :: "string \<Rightarrow> string \<Rightarrow> string" where
  "service_url ip p = ''http://'' @ ip @ '':'' @ p @ ''/source''"

definition quoted :: "string \<Rightarrow> string" where
  "quoted s = [CHR 0x27] @ s @ [CHR 0x27]"

definition not_ready_warning :: "env \<Rightarrow> string \<Rightarrow> string" where
  "not_ready_warning e n =
     ''OpenGrok may not be ready yet. Check logs with: '' @ script e @ '' logs '' @ n"

text \<open>
  Lines 538 to 553, after the record is saved: the readiness wait, its report, and the
  last command \<^verbatim>\<open>[ "$codebase_type" = "demo" ] && rm -rf "$source_path"\<close>, whose status
  is the status \<^verbatim>\<open>command_start\<close> returns: 0 after the removal, 1 when the test fails.
\<close>

definition finish_start ::
  "env \<Rightarrow> string \<Rightarrow> string \<Rightarrow> string \<Rightarrow> string \<Rightarrow> world \<Rightarrow> nat \<times> world" where
  "finish_start e n ct source_path p w =
     (let ip = vm_ip e (get_vm_name n);
          url = service_url ip p;
          (ready, w1) = wait_for_opengrok e url w;
          w2 = (if ready = 0
                then log [Echo (''=== Instance '' @ quoted n @ '' Ready ===''),
                          Echo (''OpenGrok URL: '' @ url), Echo (''VM IP: '' @ ip)] w1
                else log [Warn (not_ready_warning e n)] w1)
      in if ct = ''demo''
         then (0, log [RmRf source_path] (w2\<lparr>files := rm_rf source_path (files w2)\<rparr>))
         else (1, w2))"

text \<open>Lines 458 to 553: the provisioning of an instance whose VM does not exist.\<close>

definition fresh_start ::
  "env \<Rightarrow> string \<Rightarrow> string \<Rightarrow> start_options \<Rightarrow> world \<Rightarrow> error + nat \<times> world" where
  "fresh_start e n codebase opts w =
     and_then (check_port_available (opt_port opts) n w) (\<lambda>w1.
     and_then (determine_codebase e codebase w1) (\<lambda>(ct, source_path, project_name, w2).
     and_then (ensure_cache e (opt_no_cache opts) w2) (\<lambda>w3.
     and_then (run_all e (vm_setup_steps e (get_vm_name n) opts) w3) (\<lambda>w4.
     and_then (handle_codebase e (get_vm_name n) ct source_path opts w4) (\<lambda>w5.
     and_then (run e (ExecVM (get_vm_name n) (install_cmd (opt_port opts) project_name)) w5) (\<lambda>w6.
     Inr (finish_start e n ct source_path (opt_port opts)
            (save_instance_state e n ct source_path opts w6))))))))"

text \<open>
  Lines 402 to 456, then \<open>fresh_start\<close>. A record whose VM is running or merely exists
  returns from the function before anything else is looked at; a record whose VM is gone
  falls through to the provisioning.
\<close>

definition command_start :: "env \<Rightarrow> string list \<Rightarrow> world \<Rightarrow> error + nat \<times> world" where
  "command_start e args w =
     (case args of
        [] \<Rightarrow> Inl (Usage ''start'')
      | n # rest \<Rightarrow>
          if n = [] then Inl (Usage ''start'')
          else
            and_then (parse_options (snd (codebase_arg rest)) default_options) (\<lambda>opts.
              if instance_dir_exists w n \<and> info_running w (get_vm_name n) then
                Inr (0, log [Echo ''Instance is already running.'',
                             Echo (''OpenGrok URL: ''
                                   @ service_url (vm_ip e (get_vm_name n)) (opt_port opts))] w)
              else if instance_dir_exists w n \<and> info_ok w (get_vm_name n) then
                and_then (run e (StartVM (get_vm_name n)) w) (\<lambda>w1.
                  Inr (0, log [Echo (''Instance restarted. OpenGrok URL: ''
                                     @ service_url (vm_ip e (get_vm_name n)) (opt_port opts))] w1))
              else fresh_start e n (fst (codebase_arg rest)) opts w))"

subsection \<open>The other commands\<close>

definition check_instance_exists :: "string \<Rightarrow> world \<Rightarrow> error + unit" where
  "check_instance_exists n w =
     (if instance_dir_exists w n then Inr () else Inl (NotFoundError n))"

text \<open>The first argument \<^verbatim>\<open>${1:-}\<close>, empty when there is none.\<close>

definition first_arg :: "string list \<Rightarrow> string" where
  "first_arg args = (case args of [] \<Rightarrow> [] | a # rest \<Rightarrow> a)"

definition command_stop :: "env \<Rightarrow> string list \<Rightarrow> world \<Rightarrow> error + nat \<times> world" where
  "command_stop e args w =
     (let n = first_arg args in
      if n = [] then Inl (Usage ''stop'')
      else and_then (check_instance_exists n w) (\<lambda>u.
        if backend e (StopVM (get_vm_name n)) = 0
        then Inr (0, log [Echo ''Instance stopped (VM preserved for quick restart)'']
                       (effect (StopVM (get_vm_name n)) (log [StopVM (get_vm_name n)] w)))
        else Inl StopFailed))"

definition command_destroy :: "env \<Rightarrow> string list \<Rightarrow> world \<Rightarrow> error + nat \<times> world" where
  "command_destroy e args w =
     (let n = first_arg args in
      if n = [] then Inl (Usage ''destroy'')
      else and_then (check_instance_exists n w) (\<lambda>u.
        let w1 = (if backend e (DeletePurge (get_vm_name n)) = 0
                  then effect (DeletePurge (get_vm_name n)) (log [DeletePurge (get_vm_name n)] w)
                  else log [DeletePurge (get_vm_name n), Warn ''VM may not exist''] w)
        in Inr (0, log [RemoveState n, Echo ''Instance destroyed'']
                     (w1\<lparr>instances := filter (\<lambda>r. name r \<noteq> n) (instances w1)\<rparr>))))"

definition status_word :: "world \<Rightarrow> string \<Rightarrow> string" where
  "status_word w n =
     (if info_running w (get_vm_name n) then ''running''
      else if info_stopped w (get_vm_name n) then ''stopped''
      else ''unknown'')"

definition command_status :: "env \<Rightarrow> string list \<Rightarrow> world \<Rightarrow> error + nat \<times> world" where
  "command_status e args w =
     (let n = first_arg args in
      if n = [] then Inl (Usage ''status'')
      else if \<not> instance_dir_exists w n then Inr (1, log [Echo ''not found''] w)
      else Inr (0, log [Echo (status_word w n)] w))"

text \<open>\<^verbatim>\<open>load_instance_state\<close>: the stored document of an instance.\<close>

definition load_instance_state :: "string \<Rightarrow> world \<Rightarrow> error + instance_record" where
  "load_instance_state n w =
     (case find (\<lambda>r. name r = n) (instances w) of
        None \<Rightarrow> Inl (StateFileMissing n)
      | Some r \<Rightarrow> Inr r)"

definition command_info :: "env \<Rightarrow> string list \<Rightarrow> world \<Rightarrow> error + nat \<times> world" where
  "command_info e args w =
     (let n = first_arg args in
      if n = [] then Inl (Usage ''info'')
      else and_then (check_instance_exists n w) (\<lambda>u.
        and_then (load_instance_state n w) (\<lambda>r.
          let ip = vm_ip e (get_vm_name n) in
          Inr (0, log [Echo (''Instance: '' @ n),
                       Echo (''Status: '' @ status_word w n),
                       Echo (''VM Name: '' @ get_vm_name n),
                       Echo (''URL: '' @ service_url ip (port r)),
                       Echo (''IP: '' @ ip),
                       Echo (''Port: '' @ port r),
                       Echo (''Codebase: '' @ codebase_path r),
                       Echo (''Resources: '' @ memory r @ '' RAM, '' @ cpus r @ '' CPUs''),
                       Echo (''Created: '' @ created r)] w))))"

definition command_open :: "env \<Rightarrow> string list \<Rightarrow> world \<Rightarrow> error + nat \<times> world" where
  "command_open e args w =
     (let n = first_arg args in
      if n = [] then Inl (Usage ''open'')
      else and_then (check_instance_exists n w) (\<lambda>u.
        and_then (load_instance_state n w) (\<lambda>r.
          if status_word w n \<noteq> ''running'' then Inl (NotRunning n)
          else
            let url = service_url (vm_ip e (get_vm_name n)) (port r) in
            (case browser e of
               Some b \<Rightarrow> and_then (run e (OpenUrl b url) w) (\<lambda>w1. Inr (0, w1))
             | None \<Rightarrow> Inr (0, log [Echo (''Please open this URL manually: '' @ url)] w)))))"

definition list_row :: "env \<Rightarrow> world \<Rightarrow> instance_record \<Rightarrow> action" where
  "list_row e w r =
     TableRow [name r, status_word w (name r), port r,
               (if info_running w (get_vm_name (name r)) then vm_ip e (get_vm_name (name r))
                else ''N/A''),
               codebase_path r]"

definition command_list :: "env \<Rightarrow> string list \<Rightarrow> world \<Rightarrow> error + nat \<times> world" where
  "command_list e args w =
     Inr (0, log ([TableRow [''NAME'', ''STATUS'', ''PORT'', ''IP'', ''CODEBASE''],
                   TableRow [''----'', ''------'', ''----'', ''--'', ''--------'']]
                  @ map (list_row e w) (instances w)) w)"

definition reindex_cmd :: "string list" where
  "reindex_cmd =
     [''sudo'', ''java'', ''-Xmx2048m'', ''-jar'', ''/opt/opengrok/lib/opengrok.jar'',
      ''-c'', ''/usr/local/bin/ctags'', ''-s'', ''/var/opengrok/src'', ''-d'', ''/var/opengrok/data'',
      ''-H'', ''-P'', ''-S'', ''-G'', ''-W'', ''/var/opengrok/etc/configuration.xml'']"

definition command_reindex :: "env \<Rightarrow> string list \<Rightarrow> world \<Rightarrow> error + nat \<times> world" where
  "command_reindex e args w =
     (let n = first_arg args in
      if n = [] then Inl (Usage ''reindex'')
      else and_then (check_instance_exists n w) (\<lambda>u.
        if status_word w n \<noteq> ''running'' then Inl (NotRunning n)
        else and_then (run e (ExecVM (get_vm_name n) reindex_cmd) w) (\<lambda>w1.
          Inr (0, log [Echo ''Reindexing complete''] w1))))"

definition command_shell :: "env \<Rightarrow> string list \<Rightarrow> world \<Rightarrow> error + nat \<times> world" where
  "command_shell e args w =
     (let n = first_arg args in
      if n = [] then Inl (Usage ''shell'')
      else and_then (check_instance_exists n w) (\<lambda>u.
        and_then (run e (Shell (get_vm_name n)) w) (\<lambda>w1. Inr (0, w1))))"

definition command_logs :: "env \<Rightarrow> string list \<Rightarrow> world \<Rightarrow> error + nat \<times> world" where
  "command_logs e args w =
     (let n = first_arg args in
      if n = [] then Inl (Usage ''logs'')
      else and_then (check_instance_exists n w) (\<lambda>u.
        let follow_flag = (if first_arg (tl args) = ''--follow'' \<or> first_arg (tl args) = ''-f''
                           then [''-f''] else [])
        in and_then (run e (ExecVM (get_vm_name n)
                              ([''sudo'', ''journalctl'', ''-u'', ''tomcat'', ''-n'', ''100'']
                               @ follow_flag)) w)
             (\<lambda>w1. Inr (0, w1))))"

definition command_help :: "world \<Rightarrow> error + nat \<times> world" where
  "command_help w = Inr (0, log [Echo ''Usage: manage-opengrok-test.sh <command> [options]''] w)"

subsection \<open>Dispatch: \<^verbatim>\<open>main\<close>\<close>

definition main :: "env \<Rightarrow> string list \<Rightarrow> world \<Rightarrow> error + nat \<times> world" where
  "main e args w =
     (if \<not> multipass_installed e then Inl MultipassMissing
      else
        let cmd = (if first_arg args = [] then ''help'' else first_arg args);
            rest = tl args
        in if cmd = ''start'' then command_start e rest w
           else if cmd = ''stop'' then command_stop e rest w
           else if cmd = ''destroy'' then command_destroy e rest w
           else if cmd = ''status'' then command_status e rest w
           else if cmd = ''info'' then command_info e rest w
           else if cmd = ''open'' then command_open e rest w
           else if cmd = ''list'' then command_list e rest w
           else if cmd = ''reindex'' then command_reindex e rest w
           else if cmd = ''shell'' then command_shell e rest w
           else if cmd = ''logs'' then command_logs e rest w
           else if cmd = ''help'' \<or> cmd = ''--help'' \<or> cmd = ''-h'' then command_help w
           else Inl (UnknownCommand cmd))"

text \<open>
  The exit status of the process. \<^verbatim>\<open>main "$@"\<close> is the script's last command and the
  call of the command function is the last command of \<^verbatim>\<open>main\<close>: a function that
  returns a non-zero status fails under \<^verbatim>\<open>set -e\<close> and the script ends with that status.
\<close>

definition exit_code :: "error + nat \<times> world \<Rightarrow> nat" where
  "exit_code r = (case r of Inl err \<Rightarrow> exit_status err | Inr (s, w) \<Rightarrow> s)"

text \<open>The log of a run that came to its end, empty for a run that was cut short.\<close>

definition trace_of :: "error + nat \<times> world \<Rightarrow> action list" where
  "trace_of r = (case r of Inl err \<Rightarrow> [] | Inr (s, w) \<Rightarrow> trace w)"

definition instances_of :: "error + nat \<times> world \<Rightarrow> instance_record list" where
  "instances_of r = (case r of Inl err \<Rightarrow> [] | Inr (s, w) \<Rightarrow> instances w)"

subsection \<open>Reading the log\<close>


fun is_request :: "action \<Rightarrow> bool" where
  "is_request (Curl url) = True"
| "is_request _ = False"



text \<open>What a run ends with: its report and the removal of the demo directory.\<close>

fun is_closing :: "action \<Rightarrow> bool" where
  "is_closing (Echo m) = True"
| "is_closing (Warn m) = True"
| "is_closing (RmRf d) = True"
| "is_closing _ = False"

fun is_message :: "action \<Rightarrow> bool" where
  "is_message (Echo m) = True"
| "is_message (Warn m) = True"
| "is_message _ = False"

fun is_parse_error :: "error \<Rightarrow> bool" where
  "is_parse_error UnboundVariable = True"
| "is_parse_error (UnknownOption a) = True"
| "is_parse_error _ = False"


subsection \<open>Concrete surroundings and worlds\<close>

text \<open>Every external command succeeds and the service answers the first probe.\<close>

definition env_ok :: env where
  "env_ok =
     \<lparr>script = ''manage-opengrok-test.sh'', script_dir = ''/opt/tools'',
      multipass_installed = True, backend = (\<lambda>a. 0), http = (\<lambda>url i. Status 200),
      mktemp_d = ''/tmp/tmp.demo'', pwd_of = (\<lambda>p. p), date_utc = ''2025-01-01T00:00:00Z'',
      cache_valid = True, cache_files = [''/home/u/.opengrok-test-cache/MANIFEST.txt''],
      vm_ip = (\<lambda>vm. ''10.0.0.5''), browser = None\<rparr>"

text \<open>The same, with a service that never answers.\<close>

definition env_silent :: env where
  "env_silent = env_ok\<lparr>http := (\<lambda>url i. NoConnection)\<rparr>"

text \<open>No instance yet; \<^verbatim>\<open>/src/proj\<close> is a directory of the host.\<close>

definition world_empty :: world where
  "world_empty =
     \<lparr>instances = [], vms = Map.empty, files = [''/src/proj'' \<mapsto> Dir], trace = []\<rparr>"

text \<open>The record a successful \<^verbatim>\<open>start a /src/proj --port 9000\<close> wrote.\<close>

definition record_a :: instance_record where
  "record_a =
     \<lparr>name = ''a'', vm_name = ''opengrok-test-a'', codebase_type = ''local'',
      codebase_path = ''/src/proj'', port = ''9000'', memory = ''4G'', disk = ''20G'',
      cpus = ''2'', ubuntu_version = ''22.04'', created = ''2024-12-24T10:00:00Z'',
      git_depth = [], git_branch = []\<rparr>"

definition record_b :: instance_record where
  "record_b = record_a\<lparr>name := ''b'', vm_name := ''opengrok-test-b''\<rparr>"

text \<open>Instance \<open>a\<close> with its VM in a given state (\<open>None\<close>: the VM is gone).\<close>

definition world_a :: "vm_state option \<Rightarrow> world" where
  "world_a st =
     \<lparr>instances = [record_a], vms = (\<lambda>vm. if vm = ''opengrok-test-a'' then st else None),
      files = [''/src/proj'' \<mapsto> Dir], trace = []\<rparr>"

text \<open>Instances \<open>a\<close> and \<open>b\<close> on the same port: \<open>a\<close> is running, \<open>b\<close> is in a given state.\<close>

definition world_ab :: "vm_state option \<Rightarrow> world" where
  "world_ab st =
     \<lparr>instances = [record_a, record_b],
      vms = (\<lambda>vm. if vm = ''opengrok-test-a'' then Some Running
                  else if vm = ''opengrok-test-b'' then st else None),
      files = [''/src/proj'' \<mapsto> Dir], trace = []\<rparr>"

text \<open>The worlds after restarting the stopped \<open>a\<close>, after stopping it, and after both.\<close>

definition after_restart :: world where
  "after_restart =
     log [Echo ''Instance restarted. OpenGrok URL: http://10.0.0.5:8080/source'']
       (effect (StartVM ''opengrok-test-a'')
          (log [StartVM ''opengrok-test-a''] (world_a (Some Stopped))))"

definition after_stop :: world where
  "after_stop =
     log [Echo ''Instance stopped (VM preserved for quick restart)'']
       (effect (StopVM ''opengrok-test-a'')
          (log [StopVM ''opengrok-test-a''] (world_a (Some Running))))"

definition after_stop_start :: world where
  "after_stop_start =
     log [Echo ''Instance restarted. OpenGrok URL: http://10.0.0.5:8080/source'']
       (effect (StartVM ''opengrok-test-a'') (log [StartVM ''opengrok-test-a''] after_stop))"

text \<open>The record a first \<^verbatim>\<open>start t1\<close> (demo codebase, default options) saves.\<close>

definition fresh_record :: instance_record where
  "fresh_record =
     \<lparr>name = ''t1'', vm_name = ''opengrok-test-t1'', codebase_type = ''demo'',
      codebase_path = ''/tmp/tmp.demo'', port = ''8080'', memory = ''4G'', disk = ''20G'',
      cpus = ''2'', ubuntu_version = ''22.04'', created = ''2025-01-01T00:00:00Z'',
      git_depth = [], git_branch = []\<rparr>"

section \<open>Theorems\<close>

subsection \<open>Basic facts\<close>

lemma and_then_InrE:
  assumes "and_then m f = Inr y"
  obtains x where "m = Inr x" and "f x = Inr y"
  using assms by (cases m) (auto simp: and_then_def)

lemma and_then_Inr: "and_then (Inr x) f = f x"
  by (simp add: and_then_def)

lemma and_then_Inl: "and_then (Inl x) f = Inl x"
  by (simp add: and_then_def)

lemma log_fields:
  "trace (log as w) = trace w @ as" "instances (log as w) = instances w"
  "vms (log as w) = vms w" "files (log as w) = files w"
  by (simp_all add: log_def)

lemma effect_frame:
  "trace (effect a w) = trace w" "instances (effect a w) = instances w"
  "files (effect a w) = files w"
  by (cases a; simp)+




subsection \<open>The two early returns of \<open>command_start\<close>\<close>

lemma command_start_running:
  assumes "n \<noteq> []" "instance_dir_exists w n" "info_running w (get_vm_name n)"
    and "parse_options (snd (codebase_arg rest)) default_options = Inr opts"
  shows "command_start e (n # rest) w =
     Inr (0, log [Echo ''Instance is already running.'',
                  Echo (''OpenGrok URL: '' @ service_url (vm_ip e (get_vm_name n)) (opt_port opts))] w)"
  using assms by (simp add: command_start_def and_then_Inr)

lemma command_start_restart:
  assumes "n \<noteq> []" "instance_dir_exists w n" "\<not> info_running w (get_vm_name n)"
    and "info_ok w (get_vm_name n)"
    and "parse_options (snd (codebase_arg rest)) default_options = Inr opts"
  shows "command_start e (n # rest) w =
     and_then (run e (StartVM (get_vm_name n)) w) (\<lambda>w1.
       Inr (0, log [Echo (''Instance restarted. OpenGrok URL: ''
                          @ service_url (vm_ip e (get_vm_name n)) (opt_port opts))] w1))"
  using assms by (simp add: command_start_def and_then_Inr)

lemma command_start_existing_cases:
  assumes "instance_dir_exists w n" "info_ok w (get_vm_name n)"
  obtains
    (usage) "n = []" "command_start e (n # rest) w = Inl (Usage ''start'')"
  | (parse) err where "parse_options (snd (codebase_arg rest)) default_options = Inl err"
      "command_start e (n # rest) w = Inl err"
  | (running) opts where "n \<noteq> []" "info_running w (get_vm_name n)"
      "parse_options (snd (codebase_arg rest)) default_options = Inr opts"
      "command_start e (n # rest) w =
         Inr (0, log [Echo ''Instance is already running.'',
                      Echo (''OpenGrok URL: ''
                            @ service_url (vm_ip e (get_vm_name n)) (opt_port opts))] w)"
  | (start_failed) opts where "n \<noteq> []" "\<not> info_running w (get_vm_name n)"
      "parse_options (snd (codebase_arg rest)) default_options = Inr opts"
      "backend e (StartVM (get_vm_name n)) \<noteq> 0"
      "command_start e (n # rest) w =
         Inl (CommandFailed (StartVM (get_vm_name n)) (backend e (StartVM (get_vm_name n))))"
  | (restarted) opts where "n \<noteq> []" "\<not> info_running w (get_vm_name n)"
      "parse_options (snd (codebase_arg rest)) default_options = Inr opts"
      "backend e (StartVM (get_vm_name n)) = 0"
      "command_start e (n # rest) w =
         Inr (0, log [Echo (''Instance restarted. OpenGrok URL: ''
                            @ service_url (vm_ip e (get_vm_name n)) (opt_port opts))]
                   (effect (StartVM (get_vm_name n)) (log [StartVM (get_vm_name n)] w)))"
proof (cases "n = []")
  case True
  then show ?thesis using usage by (simp add: command_start_def)
next
  case n: False
  show ?thesis
  proof (cases "parse_options (snd (codebase_arg rest)) default_options")
    case (Inl err)
    with n show ?thesis using parse by (simp add: command_start_def and_then_Inl)
  next
    case (Inr opts)
    show ?thesis
    proof (cases "info_running w (get_vm_name n)")
      case True
      from command_start_running [OF n assms(1) True Inr, of e] show ?thesis
        using running n True Inr by blast
    next
      case False
      note eq = command_start_restart [OF n assms(1) False assms(2) Inr, of e]
      show ?thesis
      proof (cases "backend e (StartVM (get_vm_name n)) = 0")
        case True
        with eq have "command_start e (n # rest) w =
         Inr (0, log [Echo (''Instance restarted. OpenGrok URL: ''
                            @ service_url (vm_ip e (get_vm_name n)) (opt_port opts))]
                   (effect (StartVM (get_vm_name n)) (log [StartVM (get_vm_name n)] w)))"
          by (simp add: run_def and_then_Inr)
        then show ?thesis using restarted n False Inr True by blast
      next
        case nz: False
        with eq have "command_start e (n # rest) w =
         Inl (CommandFailed (StartVM (get_vm_name n)) (backend e (StartVM (get_vm_name n))))"
          by (simp add: run_def and_then_Inl)
        then show ?thesis using start_failed n False Inr nz by blast
      qed
    qed
  qed
qed

lemma parse_options_error:
  "parse_options as opts = Inl err \<Longrightarrow> is_parse_error err"
proof (induction "length as" arbitrary: as opts rule: less_induct)
  case less
  show ?case
  proof (cases as)
    case Nil
    with less.prems show ?thesis by simp
  next
    case as: (Cons a rest)
    have shorter: "is_parse_error err"
      if "length xs < length as" "parse_options xs opts' = Inl err" for xs opts'
      using less.hyps that by blast
    show ?thesis
    proof (cases "a = ''--no-cache''")
      case True
      with less.prems as have "parse_options rest (opts\<lparr>opt_no_cache := ''yes''\<rparr>) = Inl err"
        by simp
      then show ?thesis using shorter [of rest] as by simp
    next
      case False
      show ?thesis
      proof (cases rest)
        case Nil
        with less.prems as show ?thesis by (auto split: if_splits)
      next
        case (Cons v rest')
        have tail: "is_parse_error err" if "parse_options rest' opts' = Inl err" for opts'
          using shorter [of rest'] that as Cons by simp
        from less.prems False show ?thesis
          unfolding as Cons by (auto split: if_splits dest: tail)
      qed
    qed
  qed
qed

lemmas world_defs = world_empty_def world_a_def world_ab_def record_a_def record_b_def
  env_ok_def env_silent_def

lemmas start_defs = command_start_def codebase_arg_def default_options_def
  instance_dir_exists_def info_running_def info_ok_def get_vm_name_def and_then_def
  run_def log_def service_url_def

lemmas fresh_defs = fresh_start_def check_port_available_def determine_codebase_def
  ensure_cache_def vm_setup_steps_def handle_codebase_def finish_start_def
  save_instance_state_def wait_for_opengrok_def max_attempts_def
  install_cmd_def new_record_def quoted_def is_dir_def url_pattern_def basename_def
  basename_suffix_def git_clone_cmd_def not_ready_warning_def Let_def

subsection \<open>Port allocator\<close>





subsection \<open>Starting an instance that already exists\<close>

text \<open>
  C6. When the record exists and the VM is reported Running, \<^verbatim>\<open>start\<close> with well-formed
  options returns 0 at once: records, VMs and files are as before, and the only additions
  to the log are messages. Nothing is created, transferred, installed or saved.
\<close>

theorem start_running_is_noop:
  assumes "n \<noteq> []" and "instance_dir_exists w n"
    and "vms w (get_vm_name n) = Some Running"
    and "parse_options (snd (codebase_arg rest)) default_options = Inr opts"
  shows "\<exists>w' msgs. command_start e (n # rest) w = Inr (0, w')
           \<and> instances w' = instances w \<and> vms w' = vms w \<and> files w' = files w
           \<and> trace w' = trace w @ msgs \<and> (\<forall>a \<in> set msgs. is_message a)"
proof -
  from assms(3) have "info_running w (get_vm_name n)"
    by (simp add: info_running_def)
  from command_start_running [OF assms(1,2) this assms(4), of e]
  show ?thesis by (simp add: log_fields)
qed

theorem start_running_is_noop_witness:
  "command_start env_ok [''a''] (world_a (Some Running))
     = Inr (0, log [Echo ''Instance is already running.'',
                    Echo ''OpenGrok URL: http://10.0.0.5:8080/source''] (world_a (Some Running)))"
  using start_running_is_noop [of "''a''" "world_a (Some Running)" "[]" default_options env_ok]
  by (simp add: start_defs world_defs)




text \<open>
  C10. When the record exists and the VM exists (running or not), \<^verbatim>\<open>start\<close> never ends
  with a \<open>PortConflict\<close> and a run that returns has logged no port check. With a
  non-empty name and well-formed options it returns 0 whenever the VM is running or
  \<^verbatim>\<open>multipass start\<close> succeeds, whoever else holds the port.
\<close>

theorem restart_skips_port_check:
  assumes "instance_dir_exists w n" and "vms w (get_vm_name n) \<noteq> None"
  shows "command_start e (n # rest) w \<noteq> Inl (PortConflict p owner)
     \<and> (\<forall>s w'. command_start e (n # rest) w = Inr (s, w') \<longrightarrow>
          (\<exists>new. trace w' = trace w @ new \<and> PortCheck p owner \<notin> set new))
     \<and> (n \<noteq> [] \<and> (\<exists>opts. parse_options (snd (codebase_arg rest)) default_options = Inr opts)
          \<and> (vms w (get_vm_name n) = Some Running \<or> backend e (StartVM (get_vm_name n)) = 0)
        \<longrightarrow> (\<exists>w'. command_start e (n # rest) w = Inr (0, w')))"
proof -
  from assms(2) have ok: "info_ok w (get_vm_name n)"
    by (simp add: info_ok_def)
  from assms(1) ok show ?thesis
  proof (cases rule: command_start_existing_cases [where e = e and rest = rest])
    case usage
    then show ?thesis by simp
  next
    case (parse err)
    from parse_options_error [OF parse(1)] have "err \<noteq> PortConflict p owner"
      by (cases err) simp_all
    with parse show ?thesis by simp
  next
    case (running opts)
    then show ?thesis by (simp add: log_fields)
  next
    case (start_failed opts)
    then show ?thesis by (simp add: info_running_def)
  next
    case (restarted opts)
    then show ?thesis by (simp add: log_fields effect_frame)
  qed
qed

theorem restart_skips_port_check_witness:
  "check_port_available ''9000'' ''b'' (world_ab (Some Stopped)) = Inl (PortConflict ''9000'' ''a'')
   \<and> (\<exists>w'. command_start env_ok [''b'', ''--port'', ''9000''] (world_ab (Some Stopped)) = Inr (0, w'))
   \<and> command_start env_ok [''b'', ''--port'', ''9000''] (world_ab (Some Stopped))
         \<noteq> Inl (PortConflict ''9000'' ''a'')"
proof -
  have conflict: "check_port_available ''9000'' ''b'' (world_ab (Some Stopped))
        = Inl (PortConflict ''9000'' ''a'')"
    by (simp add: check_port_available_def world_defs info_running_def get_vm_name_def)
  have exists: "instance_dir_exists (world_ab (Some Stopped)) ''b''"
    by (simp add: instance_dir_exists_def world_defs)
  have vm: "vms (world_ab (Some Stopped)) (get_vm_name ''b'') \<noteq> None"
    by (simp add: get_vm_name_def world_defs)
  have parse: "\<exists>opts. parse_options (snd (codebase_arg [''--port'', ''9000''])) default_options
        = Inr opts"
    by (simp add: codebase_arg_def)
  have start: "backend env_ok (StartVM (get_vm_name ''b'')) = 0"
    by (simp add: env_ok_def)
  have name: "''b'' \<noteq> []"
    by simp
  from restart_skips_port_check
         [OF exists vm, of env_ok "[''--port'', ''9000'']" "''9000''" "''a''"]
       parse start name conflict
  show ?thesis by blast
qed

text \<open>
  C5, as the script has it. \<^verbatim>\<open>start\<close> on a record whose VM still exists leaves every
  stored record as it was; so does \<^verbatim>\<open>stop\<close> followed by \<^verbatim>\<open>start\<close>, since the VM that
  was stopped exists.
\<close>

theorem start_existing_keeps_records:
  assumes "instance_dir_exists w n"
  shows "(vms w (get_vm_name n) \<noteq> None \<longrightarrow> command_start e (n # rest) w = Inr (s, w')
            \<longrightarrow> instances w' = instances w)
     \<and> (command_stop e [n] w = Inr (s1, w1) \<longrightarrow> command_start e' (n # rest) w1 = Inr (s2, w2)
            \<longrightarrow> instances w2 = instances w)"
proof -
  have keep: "instances v' = instances v"
    if "instance_dir_exists v n" "vms v (get_vm_name n) \<noteq> None"
      "command_start x (n # rest) v = Inr (t, v')" for v v' x t
  proof -
    from that(2) have ok: "info_ok v (get_vm_name n)"
      by (simp add: info_ok_def)
    from that(1) ok show ?thesis
      by (cases rule: command_start_existing_cases [where e = x and rest = rest])
         (use that(3) in \<open>auto simp: log_fields effect_frame\<close>)
  qed
  have stop: "instances w2 = instances w"
    if st: "command_stop e [n] w = Inr (s1, w1)" and go: "command_start e' (n # rest) w1 = Inr (s2, w2)"
  proof -
    from st have w1: "w1 = log [Echo ''Instance stopped (VM preserved for quick restart)'']
                       (effect (StopVM (get_vm_name n)) (log [StopVM (get_vm_name n)] w))"
      by (auto simp: command_stop_def first_arg_def check_instance_exists_def and_then_def Let_def
               split: if_splits)
    then have i: "instances w1 = instances w" and v: "vms w1 (get_vm_name n) \<noteq> None"
      by (simp_all add: log_fields effect_frame log_def)
    from assms i have "instance_dir_exists w1 n"
      by (simp add: instance_dir_exists_def)
    from keep [OF this v go] i show ?thesis by simp
  qed
  from keep [OF assms] stop show ?thesis by blast
qed

theorem start_existing_keeps_records_witness:
  "command_start env_ok [''a'', ''/src/other''] (world_a (Some Stopped)) = Inr (0, after_restart)
   \<and> instances after_restart = [record_a]
   \<and> command_stop env_ok [''a''] (world_a (Some Running)) = Inr (0, after_stop)
   \<and> command_start env_ok [''a'', ''/src/other''] after_stop = Inr (0, after_stop_start)
   \<and> instances after_stop_start = [record_a]"
proof -
  have exists: "instance_dir_exists (world_a st) ''a''" for st
    by (simp add: instance_dir_exists_def world_defs)
  have vm: "vms (world_a (Some Stopped)) (get_vm_name ''a'') \<noteq> None"
    by (simp add: get_vm_name_def world_defs)
  have restart: "command_start env_ok [''a'', ''/src/other''] (world_a (Some Stopped))
        = Inr (0, after_restart)"
    by (simp add: start_defs world_defs after_restart_def)
  have stop: "command_stop env_ok [''a''] (world_a (Some Running)) = Inr (0, after_stop)"
    by (simp add: command_stop_def first_arg_def check_instance_exists_def and_then_def
          instance_dir_exists_def get_vm_name_def world_defs after_stop_def Let_def log_def)
  have again: "command_start env_ok [''a'', ''/src/other''] after_stop = Inr (0, after_stop_start)"
    by (simp add: start_defs world_defs after_stop_def after_stop_start_def)
  have before: "instances (world_a st) = [record_a]" for st
    by (simp add: world_a_def)
  from start_existing_keeps_records
         [OF exists, of "Some Stopped" env_ok "[''/src/other'']" 0 after_restart
            0 after_stop env_ok 0 after_stop_start]
       start_existing_keeps_records
         [OF exists, of "Some Running" env_ok "[''/src/other'']" 0 after_restart
            0 after_stop env_ok 0 after_stop_start]
       vm restart stop again before
  show ?thesis by metis
qed

text \<open>
  Against C5 as stated: the record of \<open>a\<close> says \<open>local\<close> and \<^verbatim>\<open>/src/proj\<close>; its VM is gone.
  \<^verbatim>\<open>start a\<close> provisions again and saves a record that says \<open>demo\<close> and the new
  temporary directory.
\<close>

theorem start_rewrites_record_when_vm_gone:
  "instances_of (command_start env_ok [''a''] (world_a None))
     = [\<lparr>name = ''a'', vm_name = ''opengrok-test-a'', codebase_type = ''demo'',
         codebase_path = ''/tmp/tmp.demo'', port = ''8080'', memory = ''4G'', disk = ''20G'',
         cpus = ''2'', ubuntu_version = ''22.04'', created = ''2025-01-01T00:00:00Z'',
         git_depth = [], git_branch = []\<rparr>]
   \<and> instances_of (command_start env_ok [''a''] (world_a None)) \<noteq> instances (world_a None)"
  by (simp add: start_defs world_defs fresh_defs instances_of_def)

subsection \<open>Codebase resolver\<close>

lemma basename_last_component:
  assumes "n \<noteq> []" and "CHR ''/'' \<notin> set n"
  shows "basename (d @ ''/'' @ n) = n"
proof -
  from assms(1) obtain x xs where rn: "rev n = x # xs"
    by (cases "rev n") auto
  then have "x \<in> set n"
    by (metis list.set_intros(1) set_rev)
  with assms(2) have x: "x \<noteq> CHR ''/''"
    by auto
  have drop: "dropWhile (\<lambda>c. c = CHR ''/'') (rev (d @ ''/'' @ n)) = rev (d @ ''/'' @ n)"
    using rn x by simp
  have "takeWhile (\<lambda>c. c \<noteq> CHR ''/'') (rev n @ CHR ''/'' # rev d)
      = rev n @ takeWhile (\<lambda>c. c \<noteq> CHR ''/'') (CHR ''/'' # rev d)"
  proof (rule takeWhile_append2)
    fix c assume "c \<in> set (rev n)"
    with assms(2) show "c \<noteq> CHR ''/''" by auto
  qed
  then have take: "takeWhile (\<lambda>c. c \<noteq> CHR ''/'') (rev (d @ ''/'' @ n)) = rev n"
    by simp
  show ?thesis
    unfolding basename_def Let_def drop rev_rev_ident take
    by simp
qed

lemma basename_suffix_strips:
  assumes "n \<noteq> []" and "CHR ''/'' \<notin> set (n @ suf)"
  shows "basename_suffix (d @ ''/'' @ n @ suf) suf = n"
proof -
  from assms have "basename (d @ ''/'' @ (n @ suf)) = n @ suf"
    by (intro basename_last_component) auto
  with assms(1) show ?thesis
    by (simp add: basename_suffix_def suffix_def)
qed

text \<open>
  C8. A non-empty codebase argument falls into exactly one of three cases, tried in
  this order: an existing directory is \<open>local\<close>, with the absolute path \<^verbatim>\<open>cd && pwd\<close>
  prints and that path's base name as project name; otherwise an argument that starts
  with \<^verbatim>\<open>http://\<close>, \<^verbatim>\<open>https://\<close>, \<^verbatim>\<open>git@\<close> or \<^verbatim>\<open>ssh://\<close> is \<open>git\<close>, with
  \<^verbatim>\<open>basename "$codebase" .git\<close> as project name; anything else ends the script with
  \<open>InvalidCodebase\<close>. For a URL that ends in \<^verbatim>\<open>/<repo>.git\<close> the project name is
  \<^verbatim>\<open><repo>\<close>. No case changes the world.
\<close>

theorem determine_codebase_cases:
  assumes "codebase \<noteq> []"
  shows "(is_dir w codebase \<longrightarrow>
            determine_codebase e codebase w
              = Inr (''local'', pwd_of e codebase, basename (pwd_of e codebase), w))
     \<and> (is_dir w codebase \<and> dir \<noteq> [] \<and> CHR ''/'' \<notin> set dir
          \<and> pwd_of e codebase = parent @ ''/'' @ dir \<longrightarrow>
            determine_codebase e codebase w = Inr (''local'', parent @ ''/'' @ dir, dir, w))
     \<and> (\<not> is_dir w codebase \<and> url_pattern codebase \<longrightarrow>
            determine_codebase e codebase w
              = Inr (''git'', codebase, basename_suffix codebase ''.git'', w))
     \<and> (\<not> is_dir w codebase \<and> url_pattern codebase \<and> repo \<noteq> [] \<and> CHR ''/'' \<notin> set repo
          \<and> codebase = site @ ''/'' @ repo @ ''.git'' \<longrightarrow>
            determine_codebase e codebase w = Inr (''git'', codebase, repo, w))
     \<and> (\<not> is_dir w codebase \<and> \<not> url_pattern codebase \<longrightarrow>
            determine_codebase e codebase w = Inl (InvalidCodebase codebase))"
proof -
  have dir: "determine_codebase e codebase w
      = Inr (''local'', pwd_of e codebase, basename (pwd_of e codebase), w)"
    if "is_dir w codebase"
    using that assms by (simp add: determine_codebase_def)
  have named: "determine_codebase e codebase w = Inr (''local'', parent @ ''/'' @ dir, dir, w)"
    if "is_dir w codebase" "dir \<noteq> []" "CHR ''/'' \<notin> set dir"
      "pwd_of e codebase = parent @ ''/'' @ dir"
    using dir [OF that(1)] basename_last_component [OF that(2,3), of parent] that(4) by simp
  have url: "determine_codebase e codebase w
      = Inr (''git'', codebase, basename_suffix codebase ''.git'', w)"
    if "\<not> is_dir w codebase" "url_pattern codebase"
    using that assms by (simp add: determine_codebase_def)
  have repo: "determine_codebase e codebase w = Inr (''git'', codebase, repo, w)"
    if "\<not> is_dir w codebase" "url_pattern codebase" "repo \<noteq> []" "CHR ''/'' \<notin> set repo"
      "codebase = site @ ''/'' @ repo @ ''.git''"
  proof -
    from that(3,4) have "basename_suffix (site @ ''/'' @ repo @ ''.git'') ''.git'' = repo"
      by (intro basename_suffix_strips) auto
    with url [OF that(1,2)] that(5) show ?thesis by simp
  qed
  have other: "determine_codebase e codebase w = Inl (InvalidCodebase codebase)"
    if "\<not> is_dir w codebase" "\<not> url_pattern codebase"
    using that assms by (simp add: determine_codebase_def)
  from dir named url repo other show ?thesis by blast
qed

theorem determine_codebase_cases_witness:
  "determine_codebase env_ok ''/src/proj'' world_empty
     = Inr (''local'', ''/src/proj'', ''proj'', world_empty)
   \<and> determine_codebase env_ok ''https://github.com/u/repo.git'' world_empty
     = Inr (''git'', ''https://github.com/u/repo.git'', ''repo'', world_empty)
   \<and> determine_codebase env_ok ''nowhere'' world_empty = Inl (InvalidCodebase ''nowhere'')"
proof -
  have dir: "is_dir world_empty ''/src/proj''"
    by (simp add: is_dir_def world_empty_def)
  have named: "''proj'' \<noteq> [] \<and> CHR ''/'' \<notin> set ''proj''
      \<and> pwd_of env_ok ''/src/proj'' = ''/src'' @ ''/'' @ ''proj''"
    by (simp add: env_ok_def)
  have ne1: "''/src/proj'' \<noteq> []"
    by simp
  from determine_codebase_cases
         [OF ne1, of world_empty env_ok "''proj''" "''/src''", THEN conjunct2, THEN conjunct1]
       dir named
  have local: "determine_codebase env_ok ''/src/proj'' world_empty
      = Inr (''local'', ''/src/proj'', ''proj'', world_empty)"
    by simp
  have nodir: "\<not> is_dir world_empty ''https://github.com/u/repo.git''"
    by (simp add: is_dir_def world_empty_def)
  have url: "url_pattern ''https://github.com/u/repo.git''"
    by (simp add: url_pattern_def)
  have parts: "''https://github.com/u/repo.git'' = ''https://github.com/u'' @ ''/'' @ ''repo'' @ ''.git''"
    by simp
  have slash: "''repo'' \<noteq> [] \<and> CHR ''/'' \<notin> set ''repo''"
    by simp
  have ne2: "''https://github.com/u/repo.git'' \<noteq> []"
    by simp
  from determine_codebase_cases
         [OF ne2, of world_empty env_ok _ _ "''repo''" "''https://github.com/u''",
          THEN conjunct2, THEN conjunct2, THEN conjunct2, THEN conjunct1]
       nodir url parts slash
  have git: "determine_codebase env_ok ''https://github.com/u/repo.git'' world_empty
      = Inr (''git'', ''https://github.com/u/repo.git'', ''repo'', world_empty)"
    by blast
  have nowhere: "\<not> is_dir world_empty ''nowhere''" "\<not> url_pattern ''nowhere''"
    by (simp_all add: is_dir_def world_empty_def url_pattern_def)
  have ne3: "''nowhere'' \<noteq> []"
    by simp
  from determine_codebase_cases
         [OF ne3, of world_empty env_ok, THEN conjunct2, THEN conjunct2, THEN conjunct2,
          THEN conjunct2]
       nowhere
  have other: "determine_codebase env_ok ''nowhere'' world_empty = Inl (InvalidCodebase ''nowhere'')"
    by blast
  from local git other show ?thesis by blast
qed

subsection \<open>Demo codebase\<close>

text \<open>
  C9. Two runs of \<^verbatim>\<open>create_demo_codebase\<close>, each in the new and empty directory that
  \<^verbatim>\<open>mktemp -d\<close> made for it, leave the same tree below their directories: the same
  relative paths with the same directories and the same file contents, whatever else the
  two file systems hold. The tree is not empty: it has the file \<^verbatim>\<open>src/main.c\<close>.
\<close>

theorem create_demo_codebase_deterministic:
  assumes "\<forall>rel. fs1 (d1 @ rel) = None" and "\<forall>rel. fs2 (d2 @ rel) = None"
  shows "tree_under d1 (create_demo_codebase d1 fs1) = tree_under d2 (create_demo_codebase d2 fs2)
     \<and> tree_under d1 (create_demo_codebase d1 fs1) ''/src/main.c'' = Some (File demo_main_c)"
proof
  show "tree_under d1 (create_demo_codebase d1 fs1) = tree_under d2 (create_demo_codebase d2 fs2)"
  proof (rule ext)
    fix rel
    from assms have "fs1 (d1 @ rel) = None" "fs2 (d2 @ rel) = None"
      by simp_all
    then show "tree_under d1 (create_demo_codebase d1 fs1) rel
        = tree_under d2 (create_demo_codebase d2 fs2) rel"
      by (simp add: tree_under_def create_demo_codebase_def mkdir_p_def write_file_def Let_def)
  qed
  show "tree_under d1 (create_demo_codebase d1 fs1) ''/src/main.c'' = Some (File demo_main_c)"
    by (simp add: tree_under_def create_demo_codebase_def mkdir_p_def write_file_def Let_def)
qed

theorem create_demo_codebase_deterministic_witness:
  "tree_under ''/tmp/tmp.one'' (create_demo_codebase ''/tmp/tmp.one'' Map.empty)
     = tree_under ''/tmp/tmp.two'' (create_demo_codebase ''/tmp/tmp.two'' [''/src/proj'' \<mapsto> Dir])"
proof -
  have one: "\<forall>rel. (Map.empty :: string \<rightharpoonup> node) (''/tmp/tmp.one'' @ rel) = None"
    by simp
  have two: "\<forall>rel. [''/src/proj'' \<mapsto> Dir] (''/tmp/tmp.two'' @ rel) = None"
    by simp
  from create_demo_codebase_deterministic [OF one two] show ?thesis by blast
qed

subsection \<open>The provisioning pipeline, step by step\<close>






lemma wait_loop_frame:
  "wait_loop e url k w = (r, w') \<Longrightarrow>
     instances w' = instances w \<and> vms w' = vms w \<and> files w' = files w
     \<and> (\<exists>probe. trace w' = trace w @ probe \<and> set probe \<subseteq> {Curl url, Sleep 2}
           \<and> length (filter is_request probe) \<le> max_attempts - k
           \<and> (k < max_attempts \<longrightarrow> probe \<noteq> []))"
proof (induction e url k w rule: wait_loop.induct)
  case (1 e url attempt w)
  show ?case
  proof (cases "attempt < max_attempts")
    case False
    with "1.prems" show ?thesis by (simp add: wait_loop.simps [of e url attempt w])
  next
    case less: True
    show ?thesis
    proof (cases "curl_sf (http e url attempt) = 0")
      case True
      with less "1.prems" have "w' = log [Curl url] w"
        by (simp add: wait_loop.simps [of e url attempt w])
      with less show ?thesis by (simp add: log_fields)
    next
      case False
      with less "1.prems" have
        "wait_loop e url (attempt + 1) (log [Curl url, Sleep 2] w) = (r, w')"
        by (simp add: wait_loop.simps [of e url attempt w])
      from "1.IH" [OF less False this] obtain probe where
        "instances w' = instances w" "vms w' = vms w" "files w' = files w"
        "trace w' = trace w @ [Curl url, Sleep 2] @ probe" "set probe \<subseteq> {Curl url, Sleep 2}"
        "length (filter is_request probe) \<le> max_attempts - (attempt + 1)"
        by (auto simp: log_fields)
      with less show ?thesis
        by (intro conjI exI [of _ "[Curl url, Sleep 2] @ probe"]) auto
    qed
  qed
qed



lemma finish_start_frame:
  assumes "finish_start e n ct sp p w = (s, w')"
  shows "s = (if ct = ''demo'' then 0 else 1)"
    and "instances w' = instances w" and "vms w' = vms w"
    and "files w' = (if ct = ''demo'' then rm_rf sp (files w) else files w)"
    and "\<exists>probe closing. trace w' = trace w @ probe @ closing
           \<and> probe \<noteq> [] \<and> set probe \<subseteq> {Curl (service_url (vm_ip e (get_vm_name n)) p), Sleep 2}
           \<and> length (filter is_request probe) \<le> max_attempts
           \<and> (\<forall>a \<in> set closing. is_closing a)
           \<and> (fst (wait_for_opengrok e (service_url (vm_ip e (get_vm_name n)) p) w) \<noteq> 0
                \<longrightarrow> Warn (not_ready_warning e n) \<in> set closing)"
proof -
  obtain r w1 where wait: "wait_for_opengrok e (service_url (vm_ip e (get_vm_name n)) p) w = (r, w1)"
    by (cases "wait_for_opengrok e (service_url (vm_ip e (get_vm_name n)) p) w")
  then have "wait_loop e (service_url (vm_ip e (get_vm_name n)) p) 0 w = (r, w1)"
    by (simp add: wait_for_opengrok_def)
  from wait_loop_frame [OF this] obtain probe where
    f: "instances w1 = instances w" "vms w1 = vms w" "files w1 = files w"
    and t: "trace w1 = trace w @ probe"
      "set probe \<subseteq> {Curl (service_url (vm_ip e (get_vm_name n)) p), Sleep 2}"
      "length (filter is_request probe) \<le> max_attempts" "probe \<noteq> []"
    by (auto simp: max_attempts_def)
  define report where "report =
     (if r = 0
      then [Echo (''=== Instance '' @ quoted n @ '' Ready ===''),
            Echo (''OpenGrok URL: '' @ service_url (vm_ip e (get_vm_name n)) p),
            Echo (''VM IP: '' @ vm_ip e (get_vm_name n))]
      else [Warn (not_ready_warning e n)])"
  define cleanup where "cleanup = (if ct = ''demo'' then [RmRf sp] else [])"
  have closing: "\<forall>a \<in> set (report @ cleanup). is_closing a"
    by (simp add: report_def cleanup_def)
  have warn: "r \<noteq> 0 \<longrightarrow> Warn (not_ready_warning e n) \<in> set (report @ cleanup)"
    by (simp add: report_def)
  from assms wait have res:
    "s = (if ct = ''demo'' then 0 else 1)"
    "instances w' = instances w1" "vms w' = vms w1"
    "files w' = (if ct = ''demo'' then rm_rf sp (files w1) else files w1)"
    "trace w' = trace w1 @ report @ cleanup"
    by (auto simp: finish_start_def Let_def log_fields report_def cleanup_def split: if_splits)
  from res f show "s = (if ct = ''demo'' then 0 else 1)"
    and "instances w' = instances w" and "vms w' = vms w"
    and "files w' = (if ct = ''demo'' then rm_rf sp (files w) else files w)"
    by simp_all
  from res(5) t closing warn wait
  show "\<exists>probe closing. trace w' = trace w @ probe @ closing
           \<and> probe \<noteq> [] \<and> set probe \<subseteq> {Curl (service_url (vm_ip e (get_vm_name n)) p), Sleep 2}
           \<and> length (filter is_request probe) \<le> max_attempts
           \<and> (\<forall>a \<in> set closing. is_closing a)
           \<and> (fst (wait_for_opengrok e (service_url (vm_ip e (get_vm_name n)) p) w) \<noteq> 0
                \<longrightarrow> Warn (not_ready_warning e n) \<in> set closing)"
    by (intro exI [of _ probe] exI [of _ "report @ cleanup"]) simp
qed

lemma fresh_start_InrE:
  assumes "fresh_start e n c opts w = Inr (s, w')"
  obtains ct sp pn wa wb wc wd we wf where
    "check_port_available (opt_port opts) n w = Inr wa"
    "determine_codebase e c wa = Inr (ct, sp, pn, wb)"
    "ensure_cache e (opt_no_cache opts) wb = Inr wc"
    "run_all e (vm_setup_steps e (get_vm_name n) opts) wc = Inr wd"
    "handle_codebase e (get_vm_name n) ct sp opts wd = Inr we"
    "run e (ExecVM (get_vm_name n) (install_cmd (opt_port opts) pn)) we = Inr wf"
    "finish_start e n ct sp (opt_port opts) (save_instance_state e n ct sp opts wf) = (s, w')"
proof -
  from assms obtain wa where a: "check_port_available (opt_port opts) n w = Inr wa"
    and r1: "and_then (determine_codebase e c wa) (\<lambda>(ct, source_path, project_name, w2).
     and_then (ensure_cache e (opt_no_cache opts) w2) (\<lambda>w3.
     and_then (run_all e (vm_setup_steps e (get_vm_name n) opts) w3) (\<lambda>w4.
     and_then (handle_codebase e (get_vm_name n) ct source_path opts w4) (\<lambda>w5.
     and_then (run e (ExecVM (get_vm_name n) (install_cmd (opt_port opts) project_name)) w5) (\<lambda>w6.
     Inr (finish_start e n ct source_path (opt_port opts)
            (save_instance_state e n ct source_path opts w6))))))) = Inr (s, w')"
    unfolding fresh_start_def by (erule and_then_InrE)
  from r1 obtain x where b0: "determine_codebase e c wa = Inr x"
    and r2: "(case x of (ct, source_path, project_name, w2) \<Rightarrow>
     and_then (ensure_cache e (opt_no_cache opts) w2) (\<lambda>w3.
     and_then (run_all e (vm_setup_steps e (get_vm_name n) opts) w3) (\<lambda>w4.
     and_then (handle_codebase e (get_vm_name n) ct source_path opts w4) (\<lambda>w5.
     and_then (run e (ExecVM (get_vm_name n) (install_cmd (opt_port opts) project_name)) w5) (\<lambda>w6.
     Inr (finish_start e n ct source_path (opt_port opts)
            (save_instance_state e n ct source_path opts w6))))))) = Inr (s, w')"
    by (erule and_then_InrE)
  obtain ct sp pn wb where x: "x = (ct, sp, pn, wb)"
    by (cases x) auto
  from r2 x obtain wc where c: "ensure_cache e (opt_no_cache opts) wb = Inr wc"
    and r3: "and_then (run_all e (vm_setup_steps e (get_vm_name n) opts) wc) (\<lambda>w4.
     and_then (handle_codebase e (get_vm_name n) ct sp opts w4) (\<lambda>w5.
     and_then (run e (ExecVM (get_vm_name n) (install_cmd (opt_port opts) pn)) w5) (\<lambda>w6.
     Inr (finish_start e n ct sp (opt_port opts)
            (save_instance_state e n ct sp opts w6))))) = Inr (s, w')"
    by simp (erule and_then_InrE)
  from r3 obtain wd where d: "run_all e (vm_setup_steps e (get_vm_name n) opts) wc = Inr wd"
    and r4: "and_then (handle_codebase e (get_vm_name n) ct sp opts wd) (\<lambda>w5.
     and_then (run e (ExecVM (get_vm_name n) (install_cmd (opt_port opts) pn)) w5) (\<lambda>w6.
     Inr (finish_start e n ct sp (opt_port opts)
            (save_instance_state e n ct sp opts w6)))) = Inr (s, w')"
    by (erule and_then_InrE)
  from r4 obtain we where e: "handle_codebase e (get_vm_name n) ct sp opts wd = Inr we"
    and r5: "and_then (run e (ExecVM (get_vm_name n) (install_cmd (opt_port opts) pn)) we) (\<lambda>w6.
     Inr (finish_start e n ct sp (opt_port opts)
            (save_instance_state e n ct sp opts w6))) = Inr (s, w')"
    by (erule and_then_InrE)
  from r5 obtain wf where f: "run e (ExecVM (get_vm_name n) (install_cmd (opt_port opts) pn)) we = Inr wf"
    and r6: "Inr (finish_start e n ct sp (opt_port opts)
            (save_instance_state e n ct sp opts wf)) = (Inr (s, w') :: error + nat \<times> world)"
    by (erule and_then_InrE)
  from r6 have "finish_start e n ct sp (opt_port opts) (save_instance_state e n ct sp opts wf) = (s, w')"
    by simp
  with a b0 x c d e f show thesis
    using that by blast
qed


subsection \<open>Order of the provisioning steps\<close>




subsection \<open>Readiness probe\<close>









subsection \<open>Exit status\<close>

lemma determine_codebase_type:
  assumes "determine_codebase e c w = Inr (ct, sp, pn, w')"
  shows "(ct = ''demo'') = (c = [])"
proof (cases "c = []")
  case True
  with assms show ?thesis by (simp add: determine_codebase_def)
next
  case False
  with assms have "ct = ''local'' \<or> ct = ''git''"
    by (simp add: determine_codebase_def split: if_splits)
  with False show ?thesis by auto
qed

text \<open>
  The status a provisioning run returns depends on the codebase argument alone: 0 for
  the empty argument, 1 for every other.
\<close>

lemma fresh_start_status:
  assumes "fresh_start e n c opts w = Inr (s, w')"
  shows "s = (if c = [] then 0 else 1)"
proof -
  from assms obtain ct sp pn wa wb wf where
    b: "determine_codebase e c wa = Inr (ct, sp, pn, wb)"
    and g: "finish_start e n ct sp (opt_port opts) (save_instance_state e n ct sp opts wf) = (s, w')"
    by (rule fresh_start_InrE)
  from finish_start_frame(1) [OF g] determine_codebase_type [OF b] show ?thesis
    by simp
qed

text \<open>
  C2. With every external command succeeding and the service answering at once,
  \<^verbatim>\<open>start t1 /src/proj\<close> (a local directory) provisions the instance and saves its record,
  yet the process exits with status 1; so does \<^verbatim>\<open>start\<close> with a git URL. Only the demo
  codebase gives status 0. The status is that of the last command of \<^verbatim>\<open>command_start\<close>,
  the test \<^verbatim>\<open>[ "$codebase_type" = "demo" ]\<close>. \<^verbatim>\<open>status\<close> of an unknown name prints
  \<^verbatim>\<open>not found\<close> and exits with 1.
\<close>

theorem start_local_exits_1:
  "exit_code (main env_ok [''start'', ''t1'', ''/src/proj''] world_empty) = 1
   \<and> instances_of (main env_ok [''start'', ''t1'', ''/src/proj''] world_empty)
       = [fresh_record\<lparr>codebase_type := ''local'', codebase_path := ''/src/proj''\<rparr>]
   \<and> exit_code (main env_ok [''start'', ''t1'', ''https://github.com/u/repo.git''] world_empty) = 1
   \<and> exit_code (main env_ok [''start'', ''t1''] world_empty) = 0
   \<and> exit_code (main env_ok [''status'', ''t1''] world_empty) = 1
   \<and> trace_of (main env_ok [''status'', ''t1''] world_empty) = [Echo ''not found'']"
proof -
  have cmd: "main env_ok (''start'' # args) w = command_start env_ok args w"
    "main env_ok (''status'' # args) w = command_status env_ok args w" for args w
    by (simp_all add: main_def first_arg_def env_ok_def)
  have "command_start env_ok [''t1'', ''/src/proj''] world_empty
      = fresh_start env_ok ''t1'' ''/src/proj'' default_options world_empty"
    "command_start env_ok [''t1'', ''https://github.com/u/repo.git''] world_empty
      = fresh_start env_ok ''t1'' ''https://github.com/u/repo.git'' default_options world_empty"
    "command_start env_ok [''t1''] world_empty
      = fresh_start env_ok ''t1'' [] default_options world_empty"
    by (simp_all add: command_start_def codebase_arg_def instance_dir_exists_def world_empty_def
          and_then_def)
  note start = this
  have local: "exit_code (fresh_start env_ok ''t1'' ''/src/proj'' default_options world_empty) = 1"
    "instances_of (fresh_start env_ok ''t1'' ''/src/proj'' default_options world_empty)
       = [fresh_record\<lparr>codebase_type := ''local'', codebase_path := ''/src/proj''\<rparr>]"
    by (simp_all add: start_defs world_defs fresh_defs exit_code_def instances_of_def
          fresh_record_def)
  have git: "exit_code (fresh_start env_ok ''t1'' ''https://github.com/u/repo.git''
        default_options world_empty) = 1"
    by (simp add: start_defs world_defs fresh_defs exit_code_def suffix_to_prefix)
  have demo: "exit_code (fresh_start env_ok ''t1'' [] default_options world_empty) = 0"
    by (simp add: start_defs world_defs fresh_defs exit_code_def)
  have status: "exit_code (command_status env_ok [''t1''] world_empty) = 1"
    "trace_of (command_status env_ok [''t1''] world_empty) = [Echo ''not found'']"
    by (simp_all add: command_status_def first_arg_def instance_dir_exists_def world_empty_def
          exit_code_def trace_of_def log_def)
  from local git demo status show ?thesis
    unfolding cmd start by simp
qed


end
